theory Spec2Isabelle
  imports Complex_Main "HOL-Library.Log_Nat"
begin

section \<open>JavaScript values the client handles\<close>

text \<open>
  A JavaScript number is NaN, an infinity or a finite double. A finite double is held as
  the rational it denotes (the sign of zero, which nothing here reads, is dropped);
  arithmetic rounds its result to a double (\<open>to_double\<close> below).
\<close>

datatype jsnum = NaN | PosInfinity | NegInfinity | Finite rat

text \<open>A \<^verbatim>\<open>Date\<close> is its time value: milliseconds since the epoch, or no time at all.\<close>

datatype date = Invalid_Date | Date int

text \<open>
  Values that are thrown. \<^verbatim>\<open>RateLimitError\<close> (src/types/index.ts) extends
  \<^verbatim>\<open>Error\<close> with the field \<^verbatim>\<open>resetTime\<close>, which is its
  argument here. Its name is fixed and its message is a fixed text followed by the ISO
  rendering of \<^verbatim>\<open>resetTime\<close>, so the reset time determines both.
\<close>

datatype js_error =
    Error string
  | RateLimitError date
  | RangeError string
  | TypeError string
  | SyntaxError string

text \<open>
  The request body is typed \<^verbatim>\<open>unknown\<close>; the values a caller builds from
  literals are modelled. An absent body (\<^verbatim>\<open>undefined\<close>) is \<open>None\<close> of the
  option type that wraps this one.
\<close>

datatype js_value =
    JNull
  | JBool bool
  | JNum jsnum
  | JStr string
  | JArr "js_value list"
  | JObj "(string \<times> js_value) list"

text \<open>ECMAScript's ToBoolean, which the conditional \<^verbatim>\<open>body ? ... : ...\<close> applies.\<close>

fun ToBoolean :: "js_value \<Rightarrow> bool" where
  "ToBoolean JNull = False"
| "ToBoolean (JBool b) = b"
| "ToBoolean (JNum n) = (n \<noteq> NaN \<and> n \<noteq> Finite 0)"
| "ToBoolean (JStr s) = (s \<noteq> [])"
| "ToBoolean (JArr xs) = True"
| "ToBoolean (JObj kvs) = True"

definition truthy :: "js_value option \<Rightarrow> bool" where
  "truthy b = (case b of None \<Rightarrow> False | Some v \<Rightarrow> ToBoolean v)"

text \<open>
  A query value is \<^verbatim>\<open>string | number | boolean | undefined\<close>: a scalar, or
  \<open>None\<close> for \<^verbatim>\<open>undefined\<close>.
\<close>

datatype scalar = Str string | Num jsnum | Bool bool

datatype http_method = GET | POST | PUT | DELETE

text \<open>
  \<^verbatim>\<open>RequestOptions\<close> (src/types/index.ts). The query object is held as the list of
  its own properties in the order \<^verbatim>\<open>Object.entries\<close> lists them.
\<close>

record RequestOptions =
  "method" :: http_method
  path :: string
  body :: "js_value option"
  query :: "(string \<times> scalar option) list option"

section \<open>The platform\<close>

text \<open>
  A URL as the URL Standard holds it, as far as the client reads it: everything before the
  query (\<open>origin_path\<close>), the query (or none), the name-value list of its
  \<^verbatim>\<open>searchParams\<close> object, and the fragment (or none).
\<close>

record url =
  origin_path :: string
  url_query :: "string option"
  searchParams :: "(string \<times> string) list"
  fragment :: "string option"

text \<open>The second argument of \<^verbatim>\<open>fetch\<close>, together with the first (the URL).\<close>

record fetch_args =
  fetch_url :: string
  fetch_method :: "http_method option"
  fetch_headers :: "(string \<times> string) list"
  fetch_body :: "string option"

text \<open>
  A \<^verbatim>\<open>Response\<close>: \<open>status\<close> is an unsigned short in the Fetch interface;
  the three body readers are held by the outcome of calling them, \<open>Inl\<close> for a rejected
  promise.
\<close>

record ('j, 'b) response =
  status :: nat
  headers :: "(string \<times> string) list"
  response_text :: "js_error + string"
  response_json :: "js_error + 'j"
  response_blob :: "js_error + 'b"

text \<open>
  What the client takes from its runtime and does not define itself: the URL parser, the
  rendering of numbers as text, \<^verbatim>\<open>JSON.stringify\<close>, \<^verbatim>\<open>Number\<close>
  applied to a header value (\<open>None\<close> is \<^verbatim>\<open>null\<close>), the wording of the
  TypeError that \<^verbatim>\<open>new Headers\<close> throws for a name or value it refuses, and
  \<^verbatim>\<open>fetch\<close>.
\<close>

record ('j, 'b) platform =
  new_URL :: "string \<Rightarrow> string \<Rightarrow> js_error + url"
  Number_toString :: "jsnum \<Rightarrow> string"
  JSON_stringify :: "js_value \<Rightarrow> string"
  Number :: "string option \<Rightarrow> jsnum"
  invalid_header_message :: "string \<Rightarrow> string"
  fetch :: "fetch_args \<Rightarrow> js_error + ('j, 'b) response"

section \<open>The client: construction\<close>

record CuenticaAPI =
  token :: string
  baseUrl :: string

definition default_baseUrl :: string where
  "default_baseUrl = ''https://api.cuentica.com''"

definition token_required :: string where
  "token_required =
     ''API token is required. Either pass it to the constructor or set CUENTICA_TOKEN environment variable''"

text \<open>
  The constructor. Its arguments are the optional token, the optional base URL (the
  default applies when it is \<^verbatim>\<open>undefined\<close>), and the value of
  \<^verbatim>\<open>process.env.CUENTICA_TOKEN\<close>. \<^verbatim>\<open>??\<close> takes the environment's value
  only when the token is absent; \<^verbatim>\<open>!authToken\<close> holds of an absent token and of
  the empty string.
\<close>

definition new_CuenticaAPI ::
  "string option \<Rightarrow> string option \<Rightarrow> string option \<Rightarrow> js_error + CuenticaAPI" where
  "new_CuenticaAPI token_arg baseUrl_arg env_CUENTICA_TOKEN =
     (let authToken = (case token_arg of Some t \<Rightarrow> Some t | None \<Rightarrow> env_CUENTICA_TOKEN)
      in case authToken of
           None \<Rightarrow> Inl (Error token_required)
         | Some t \<Rightarrow>
             if t = [] then Inl (Error token_required)
             else Inr \<lparr>token = t,
                       baseUrl = (case baseUrl_arg of None \<Rightarrow> default_baseUrl | Some b \<Rightarrow> b)\<rparr>)"

section \<open>Built-ins the request pipeline calls\<close>

text \<open>\<^verbatim>\<open>Array.prototype.join\<close> on an array of strings.\<close>

fun join :: "string \<Rightarrow> string list \<Rightarrow> string" where
  "join sep [] = []"
| "join sep [x] = x"
| "join sep (x # y # ys) = x @ sep @ join sep (y # ys)"

text \<open>
  The decimal digits of a natural number, as a template literal renders an integer.
  \<open>digit_char\<close> is the digit of a value below 16, in upper case as percent-encoding
  writes it.
\<close>

definition digit_char :: "nat \<Rightarrow> char" where
  "digit_char d = ''0123456789ABCDEF'' ! d"

fun show_nat :: "nat \<Rightarrow> string" where
  "show_nat n =
     (if n < 10 then [digit_char n]
      else show_nat (n div 10) @ [digit_char (n mod 10)])"

text \<open>
  The \<^verbatim>\<open>application/x-www-form-urlencoded\<close> serializer of the URL Standard, over
  the bytes of the UTF-8 encoding: a space becomes \<open>+\<close>; letters, digits and
  \<open>* - . _\<close> stay; every other byte is percent-encoded with upper-case hex digits.
\<close>

definition urlencoded_keep :: "char \<Rightarrow> bool" where
  "urlencoded_keep c =
     (let n = (of_char c :: nat)
      in (48 \<le> n \<and> n \<le> 57) \<or> (65 \<le> n \<and> n \<le> 90) \<or> (97 \<le> n \<and> n \<le> 122)
         \<or> n = 42 \<or> n = 45 \<or> n = 46 \<or> n = 95)"

definition urlencoded_byte :: "char \<Rightarrow> string" where
  "urlencoded_byte c =
     (let n = (of_char c :: nat)
      in if n = 32 then ''+''
         else if urlencoded_keep c then [c]
         else [CHR ''%'', digit_char (n div 16), digit_char (n mod 16)])"

definition urlencode :: "string \<Rightarrow> string" where
  "urlencode s = concat (map urlencoded_byte s)"

definition urlencoded_serialize :: "(string \<times> string) list \<Rightarrow> string" where
  "urlencoded_serialize l = join ''&'' (map (\<lambda>(k, v). urlencode k @ ''='' @ urlencode v) l)"

text \<open>
  \<^verbatim>\<open>url.searchParams.append(name, value)\<close>: the pair goes to the end of the list,
  and the update steps set the URL's query to the serialization of the list.
\<close>

definition searchParams_append :: "url \<Rightarrow> string \<Rightarrow> string \<Rightarrow> url" where
  "searchParams_append u name v =
     (let l = searchParams u @ [(name, v)]
      in u\<lparr>searchParams := l, url_query := Some (urlencoded_serialize l)\<rparr>)"

text \<open>\<^verbatim>\<open>url.toString()\<close>: the URL serializer.\<close>

definition URL_toString :: "url \<Rightarrow> string" where
  "URL_toString u =
     origin_path u
     @ (case url_query u of None \<Rightarrow> [] | Some q \<Rightarrow> ''?'' @ q)
     @ (case fragment u of None \<Rightarrow> [] | Some f \<Rightarrow> ''#'' @ f)"

text \<open>\<^verbatim>\<open>value.toString()\<close> on a string, a number or a boolean.\<close>

fun toString :: "('j, 'b) platform \<Rightarrow> scalar \<Rightarrow> string" where
  "toString p (Str s) = s"
| "toString p (Num n) = Number_toString p n"
| "toString p (Bool b) = (if b then ''true'' else ''false'')"

text \<open>
  \<^verbatim>\<open>headers.get(name)\<close>: names match without regard to ASCII case, the values of
  all matching headers are joined by a comma and a space, and no match gives
  \<^verbatim>\<open>null\<close>.
\<close>

definition ascii_lower :: "char \<Rightarrow> char" where
  "ascii_lower c =
     (let n = (of_char c :: nat) in if 65 \<le> n \<and> n \<le> 90 then char_of (n + 32) else c)"

definition Headers_get :: "(string \<times> string) list \<Rightarrow> string \<Rightarrow> string option" where
  "Headers_get hs name =
     (case map snd (filter (\<lambda>(k, v). map ascii_lower k = map ascii_lower name) hs) of
        [] \<Rightarrow> None
      | vs \<Rightarrow> Some (join '', '' vs))"

text \<open>
  \<^verbatim>\<open>new Headers(init)\<close> on an object, by the Fetch Standard: each value loses its
  leading and trailing HTTP whitespace (tab, line feed, carriage return, space); a name
  that is not a token, or a value that then holds a NUL, a line feed or a carriage return,
  makes the constructor throw a TypeError; otherwise the pair is appended. The headers are
  kept in the order of the object (names compare without regard to case, see
  \<open>Headers_get\<close>). A header value is a byte string: each character is one byte.
\<close>

definition http_whitespace :: "char \<Rightarrow> bool" where
  "http_whitespace c =
     (let n = (of_char c :: nat) in n = 9 \<or> n = 10 \<or> n = 13 \<or> n = 32)"

definition normalize_value :: "string \<Rightarrow> string" where
  "normalize_value v = rev (dropWhile http_whitespace (rev (dropWhile http_whitespace v)))"

definition header_value_ok :: "string \<Rightarrow> bool" where
  "header_value_ok v =
     list_all (\<lambda>c. let n = (of_char c :: nat) in n \<noteq> 0 \<and> n \<noteq> 10 \<and> n \<noteq> 13) v"

definition token_char :: "char \<Rightarrow> bool" where
  "token_char c =
     (let n = (of_char c :: nat)
      in (48 \<le> n \<and> n \<le> 57) \<or> (65 \<le> n \<and> n \<le> 90) \<or> (97 \<le> n \<and> n \<le> 122)
         \<or> n \<in> set [33, 35, 36, 37, 38, 39, 42, 43, 45, 46, 94, 95, 96, 124, 126])"

definition header_name_ok :: "string \<Rightarrow> bool" where
  "header_name_ok name = (name \<noteq> [] \<and> list_all token_char name)"

fun new_Headers ::
  "('j, 'b) platform \<Rightarrow> (string \<times> string) list \<Rightarrow> js_error + (string \<times> string) list" where
  "new_Headers p [] = Inr []"
| "new_Headers p ((name, v) # init) =
     (if \<not> header_name_ok name then Inl (TypeError (invalid_header_message p name))
      else if \<not> header_value_ok (normalize_value v)
      then Inl (TypeError (invalid_header_message p (normalize_value v)))
      else (case new_Headers p init of
              Inl e \<Rightarrow> Inl e
            | Inr hs \<Rightarrow> Inr ((name, normalize_value v) # hs)))"

text \<open>
  Rounding to a double (IEEE 754 binary64, to nearest, ties to even). \<open>binade\<close> of
  a positive number is the exponent \<open>e\<close> with \<open>2 ^ e \<le> q < 2 ^ (e + 1)\<close>; a
  double is a multiple of \<open>2 ^ (e - 52)\<close>, with \<open>e\<close> not below \<open>- 1022\<close>
  (the subnormal range), and a result of \<open>2 ^ 1024\<close> or more is an infinity.
\<close>

definition round_half_even :: "rat \<Rightarrow> int" where
  "round_half_even x =
     (let f = \<lfloor>x\<rfloor>; d = x - of_int f
      in if d < 1 / 2 then f else if 1 / 2 < d then f + 1 else if even f then f else f + 1)"

definition binade :: "rat \<Rightarrow> int" where
  "binade q = (if 1 \<le> q then bitlen \<lfloor>q\<rfloor> - 1 else - bitlen (\<lceil>1 / q\<rceil> - 1))"

definition to_double :: "rat \<Rightarrow> jsnum" where
  "to_double q =
     (if q = 0 then Finite 0
      else
        (let e = max (binade \<bar>q\<bar>) (- 1022);
             u = 2 powi (e - 52);
             r = of_int (round_half_even (\<bar>q\<bar> / u)) * u
         in if 2 powi 1024 \<le> r then (if q < 0 then NegInfinity else PosInfinity)
            else Finite (if q < 0 then - r else r)))"

text \<open>\<^verbatim>\<open>x * 1000\<close>: the product, rounded to a double.\<close>

fun times_1000 :: "jsnum \<Rightarrow> jsnum" where
  "times_1000 (Finite q) = to_double (q * 1000)"
| "times_1000 NaN = NaN"
| "times_1000 PosInfinity = PosInfinity"
| "times_1000 NegInfinity = NegInfinity"

text \<open>
  \<^verbatim>\<open>new Date(value)\<close> on a number: TimeClip gives no time to NaN, to the infinities
  and to a magnitude above \<open>8.64e15\<close>, and truncates the rest towards zero.
\<close>

fun new_Date :: "jsnum \<Rightarrow> date" where
  "new_Date (Finite q) =
     (if \<bar>q\<bar> > 8640000000000000 then Invalid_Date
      else Date (if 0 \<le> q then \<lfloor>q\<rfloor> else \<lceil>q\<rceil>))"
| "new_Date NaN = Invalid_Date"
| "new_Date PosInfinity = Invalid_Date"
| "new_Date NegInfinity = Invalid_Date"

text \<open>
  \<^verbatim>\<open>date.toISOString()\<close> throws a RangeError on a date with no time (the message
  is V8's). The text it returns otherwise is held by the time it renders.
\<close>

definition toISOString :: "date \<Rightarrow> js_error + int" where
  "toISOString d =
     (case d of
        Invalid_Date \<Rightarrow> Inl (RangeError ''Invalid time value'')
      | Date t \<Rightarrow> Inr t)"

text \<open>
  The constructor of \<^verbatim>\<open>RateLimitError\<close> (src/types/index.ts) renders the date for
  the message before it stores the date.
\<close>

definition new_RateLimitError :: "date \<Rightarrow> js_error + js_error" where
  "new_RateLimitError resetTime =
     (case toISOString resetTime of
        Inl e \<Rightarrow> Inl e
      | Inr isoText \<Rightarrow> Inr (RateLimitError resetTime))"

text \<open>\<^verbatim>\<open>response.ok\<close>: the status is in the range 200 to 299.\<close>

definition ok :: "('j, 'b) response \<Rightarrow> bool" where
  "ok r = (200 \<le> status r \<and> status r \<le> 299)"

section \<open>The request pipeline\<close>

text \<open>
  \<^verbatim>\<open>request\<close> (src/index.ts) in the order of its statements: the URL with the
  query appended (lines 82 to 89), the headers (lines 91 to 94), the call of
  \<^verbatim>\<open>fetch\<close> (lines 101 to 105) and what is done with the response (lines 107 to
  128). The calls to the loggers are left out, except for the argument of line 111, whose
  evaluation can throw.
\<close>

definition append_query ::
  "('j, 'b) platform \<Rightarrow> url \<Rightarrow> (string \<times> scalar option) list \<Rightarrow> url" where
  "append_query p u q =
     fold (\<lambda>(key, value) url.
             case value of
               None \<Rightarrow> url
             | Some v \<Rightarrow> searchParams_append url key (toString p v)) q u"

definition request_url ::
  "('j, 'b) platform \<Rightarrow> CuenticaAPI \<Rightarrow> RequestOptions \<Rightarrow> js_error + url" where
  "request_url p api opts =
     (case new_URL p (path opts) (baseUrl api) of
        Inl e \<Rightarrow> Inl e
      | Inr u0 \<Rightarrow> Inr (case query opts of None \<Rightarrow> u0 | Some q \<Rightarrow> append_query p u0 q))"

text \<open>The object given to \<^verbatim>\<open>new Headers\<close>.\<close>

definition headers_init :: "CuenticaAPI \<Rightarrow> RequestOptions \<Rightarrow> (string \<times> string) list" where
  "headers_init api opts =
     [(''X-AUTH-TOKEN'', token api)]
     @ (if truthy (body opts) then [(''Content-Type'', ''application/json'')] else [])"

text \<open>The \<^verbatim>\<open>body\<close> property of the second argument of \<^verbatim>\<open>fetch\<close>, if any.\<close>

definition body_init :: "('j, 'b) platform \<Rightarrow> RequestOptions \<Rightarrow> string option" where
  "body_init p opts =
     (if truthy (body opts) then map_option (JSON_stringify p) (body opts) else None)"

definition request_args ::
  "('j, 'b) platform \<Rightarrow> CuenticaAPI \<Rightarrow> RequestOptions \<Rightarrow> js_error + fetch_args" where
  "request_args p api opts =
     (case request_url p api opts of
        Inl e \<Rightarrow> Inl e
      | Inr u \<Rightarrow>
          (case new_Headers p (headers_init api opts) of
             Inl e \<Rightarrow> Inl e
           | Inr hs \<Rightarrow>
               Inr \<lparr>fetch_url = URL_toString u,
                    fetch_method = Some (method opts),
                    fetch_headers = hs,
                    fetch_body = body_init p opts\<rparr>))"

definition handle_response ::
  "('j, 'b) platform \<Rightarrow> ('j, 'b) response \<Rightarrow> js_error + 'j option" where
  "handle_response p r =
     (if status r = 429 then
        (let resetTime =
               new_Date (times_1000 (Number p (Headers_get (headers r) ''X-RateLimit-Reset'')))
         in case toISOString resetTime of
              Inl e \<Rightarrow> Inl e
            | Inr isoText \<Rightarrow>
                (case new_RateLimitError resetTime of Inl e \<Rightarrow> Inl e | Inr err \<Rightarrow> Inl err))
      else if \<not> ok r then
        (case response_text r of
           Inl e \<Rightarrow> Inl e
         | Inr errorText \<Rightarrow>
             Inl (Error (''HTTP '' @ show_nat (status r) @ '': '' @ errorText)))
      else if status r = 204 then Inr None
      else (case response_json r of Inl e \<Rightarrow> Inl e | Inr data \<Rightarrow> Inr (Some data)))"

text \<open>The call of \<^verbatim>\<open>fetch\<close> on its arguments, and the handling of its response.\<close>

definition dispatch ::
  "('j, 'b) platform \<Rightarrow> fetch_args \<Rightarrow> js_error + 'j option" where
  "dispatch p args =
     (case fetch p args of Inl e \<Rightarrow> Inl e | Inr r \<Rightarrow> handle_response p r)"

definition request ::
  "('j, 'b) platform \<Rightarrow> CuenticaAPI \<Rightarrow> RequestOptions \<Rightarrow> js_error + 'j option" where
  "request p api opts =
     (case request_args p api opts of
        Inl e \<Rightarrow> Inl e
      | Inr args \<Rightarrow> dispatch p args)"

section \<open>The facade operations the claims name\<close>

definition getCompany_options :: RequestOptions where
  "getCompany_options = \<lparr>method = GET, path = ''/company'', body = None, query = None\<rparr>"

definition getCompany :: "('j, 'b) platform \<Rightarrow> CuenticaAPI \<Rightarrow> js_error + 'j option" where
  "getCompany p api = request p api getCompany_options"

text \<open>
  The parameter object of \<^verbatim>\<open>getInvoices\<close> and \<^verbatim>\<open>getExpenses\<close>, as
  \<^verbatim>\<open>const { tags, ...rest } = params\<close> takes it apart: the \<^verbatim>\<open>tags\<close>
  property (or none) and the other properties in their order.
\<close>

record ListParams =
  tags :: "string list option"
  rest :: "(string \<times> scalar option) list"

definition tags_query :: "ListParams \<Rightarrow> (string \<times> scalar option) list" where
  "tags_query params =
     rest params @ [(''tags'', map_option (\<lambda>ts. Str (join '','' ts)) (tags params))]"

definition getInvoices_options :: "ListParams \<Rightarrow> RequestOptions" where
  "getInvoices_options params =
     \<lparr>method = GET, path = ''/invoice'', body = None, query = Some (tags_query params)\<rparr>"

definition getInvoices ::
  "('j, 'b) platform \<Rightarrow> CuenticaAPI \<Rightarrow> ListParams \<Rightarrow> js_error + 'j option" where
  "getInvoices p api params = request p api (getInvoices_options params)"

definition getExpenses_options :: "ListParams \<Rightarrow> RequestOptions" where
  "getExpenses_options params =
     \<lparr>method = GET, path = ''/expense'', body = None, query = Some (tags_query params)\<rparr>"

definition getExpenses ::
  "('j, 'b) platform \<Rightarrow> CuenticaAPI \<Rightarrow> ListParams \<Rightarrow> js_error + 'j option" where
  "getExpenses p api params = request p api (getExpenses_options params)"

text \<open>
  \<^verbatim>\<open>getInvoicePdf\<close> calls \<^verbatim>\<open>fetch\<close> itself, on a URL it writes as text
  and with the token in a plain object of headers, which \<^verbatim>\<open>fetch\<close> reads.
\<close>

definition getInvoicePdf_args ::
  "('j, 'b) platform \<Rightarrow> CuenticaAPI \<Rightarrow> jsnum \<Rightarrow> fetch_args" where
  "getInvoicePdf_args p api invoice_id =
     \<lparr>fetch_url = baseUrl api @ ''/invoice/'' @ Number_toString p invoice_id @ ''/pdf'',
      fetch_method = None,
      fetch_headers = [(''X-AUTH-TOKEN'', token api)],
      fetch_body = None\<rparr>"

definition getInvoicePdf ::
  "('j, 'b) platform \<Rightarrow> CuenticaAPI \<Rightarrow> jsnum \<Rightarrow> js_error + 'b" where
  "getInvoicePdf p api invoice_id =
     (case fetch p (getInvoicePdf_args p api invoice_id) of
        Inl e \<Rightarrow> Inl e
      | Inr r \<Rightarrow>
          if \<not> ok r then
            (case response_text r of
               Inl e \<Rightarrow> Inl e
             | Inr t \<Rightarrow> Inl (Error (''HTTP '' @ show_nat (status r) @ '': '' @ t)))
          else response_blob r)"

section \<open>A runtime for closed instances\<close>

text \<open>
  Closed instances of the theorems below need a runtime to run on. Each function of this
  one agrees with the built-in it stands for on the inputs named with it, and is used on
  no other.

  \<open>example_URL\<close>: \<^verbatim>\<open>new URL(path, base)\<close> for a base that is an origin
  and an absolute path with no query and no fragment.
\<close>

definition example_URL :: "string \<Rightarrow> string \<Rightarrow> js_error + url" where
  "example_URL path_arg base =
     Inr \<lparr>origin_path = base @ path_arg, url_query = None, searchParams = [],
          fragment = None\<rparr>"

text \<open>
  \<open>example_Number\<close>: \<^verbatim>\<open>Number\<close> on \<^verbatim>\<open>null\<close>, on a string of
  decimal digits (the empty one included), and on text that starts no numeric literal.
\<close>

definition is_digit :: "char \<Rightarrow> bool" where
  "is_digit c = (let n = (of_char c :: nat) in 48 \<le> n \<and> n \<le> 57)"

definition nat_of_digits :: "string \<Rightarrow> nat" where
  "nat_of_digits s = fold (\<lambda>c n. 10 * n + (of_char c - 48)) s 0"

definition example_Number :: "string option \<Rightarrow> jsnum" where
  "example_Number h =
     (case h of
        None \<Rightarrow> Finite 0
      | Some s \<Rightarrow> if list_all is_digit s then Finite (of_nat (nat_of_digits s)) else NaN)"

text \<open>
  \<open>example_Number_toString\<close>: \<^verbatim>\<open>Number.prototype.toString\<close> on NaN, on the
  infinities and on integers of magnitude below \<open>10 ^ 21\<close>.
\<close>

definition example_Number_toString :: "jsnum \<Rightarrow> string" where
  "example_Number_toString n =
     (case n of
        NaN \<Rightarrow> ''NaN''
      | PosInfinity \<Rightarrow> ''Infinity''
      | NegInfinity \<Rightarrow> ''-Infinity''
      | Finite q \<Rightarrow> (if q < 0 then ''-'' else []) @ show_nat (nat \<lfloor>\<bar>q\<bar>\<rfloor>))"

text \<open>
  \<open>example_stringify\<close>: \<^verbatim>\<open>JSON.stringify\<close> on values whose numbers are
  integers of magnitude below \<open>10 ^ 21\<close> and whose strings hold no control character.
\<close>

definition quote :: "string \<Rightarrow> string" where
  "quote s =
     ''\"'' @ concat (map (\<lambda>c. if c = CHR ''\"'' \<or> c = CHR 0x5C then [CHR 0x5C, c] else [c]) s)
     @ ''\"''"

fun example_stringify :: "js_value \<Rightarrow> string" where
  "example_stringify JNull = ''null''"
| "example_stringify (JBool b) = (if b then ''true'' else ''false'')"
| "example_stringify (JNum n) =
     (case n of Finite q \<Rightarrow> example_Number_toString n | _ \<Rightarrow> ''null'')"
| "example_stringify (JStr s) = quote s"
| "example_stringify (JArr xs) = ''['' @ join '','' (map example_stringify xs) @ '']''"
| "example_stringify (JObj kvs) =
     ''{'' @ join '','' (map (\<lambda>kv. quote (fst kv) @ '':'' @ example_stringify (snd kv)) kvs)
     @ ''}''"

text \<open>\<open>example_header_message\<close>: the wording of Node's \<^verbatim>\<open>fetch\<close> (undici).\<close>

definition example_header_message :: "string \<Rightarrow> string" where
  "example_header_message v = ''Headers.append: \"'' @ v @ ''\" is an invalid header value.''"

definition example_platform ::
  "(fetch_args \<Rightarrow> js_error + ('j, 'b) response) \<Rightarrow> ('j, 'b) platform" where
  "example_platform f =
     \<lparr>new_URL = example_URL,
      Number_toString = example_Number_toString,
      JSON_stringify = example_stringify,
      Number = example_Number,
      invalid_header_message = example_header_message,
      fetch = f\<rparr>"

definition example_api :: CuenticaAPI where
  "example_api = \<lparr>token = ''test-token'', baseUrl = default_baseUrl\<rparr>"

text \<open>Responses and calls for closed instances, after the mocks of src/index.spec.ts.\<close>

definition respond ::
  "('j, 'b) response \<Rightarrow> fetch_args \<Rightarrow> js_error + ('j, 'b) response" where
  "respond r args = Inr r"

definition text_response ::
  "nat \<Rightarrow> (string \<times> string) list \<Rightarrow> string \<Rightarrow> (js_value, string) response" where
  "text_response st hs t =
     \<lparr>status = st, headers = hs, response_text = Inr t,
      response_json = Inl (Error ''Invalid JSON''), response_blob = Inr t\<rparr>"

text \<open>
  A server that answers every request with status 200 and a JSON body that repeats what it
  was sent: the URL, the verb, the headers and the body.
\<close>

definition method_name :: "http_method option \<Rightarrow> js_value" where
  "method_name m =
     (case m of
        None \<Rightarrow> JNull
      | Some GET \<Rightarrow> JStr ''GET''
      | Some POST \<Rightarrow> JStr ''POST''
      | Some PUT \<Rightarrow> JStr ''PUT''
      | Some DELETE \<Rightarrow> JStr ''DELETE'')"

definition echo :: "fetch_args \<Rightarrow> js_value" where
  "echo args =
     JObj [(''url'', JStr (fetch_url args)),
           (''method'', method_name (fetch_method args)),
           (''headers'', JObj (map (\<lambda>(k, v). (k, JStr v)) (fetch_headers args))),
           (''body'', case fetch_body args of None \<Rightarrow> JNull | Some b \<Rightarrow> JStr b)]"

definition echo_server :: "fetch_args \<Rightarrow> js_error + (js_value, string) response" where
  "echo_server args =
     Inr \<lparr>status = 200, headers = [], response_text = Inr [],
          response_json = Inr (echo args), response_blob = Inr []\<rparr>"

text \<open>A response whose body cannot be read: the connection ends before the body does.\<close>

definition broken_response :: "nat \<Rightarrow> (js_value, string) response" where
  "broken_response st =
     \<lparr>status = st, headers = [], response_text = Inl (TypeError ''terminated''),
      response_json = Inl (TypeError ''terminated''),
      response_blob = Inl (TypeError ''terminated'')\<rparr>"

section \<open>The spec's reading of the query string\<close>

text \<open>
  The pairs the spec has in the query string: the entries whose value is not absent, in
  their order, each value as text.
\<close>

definition spec_query_pairs ::
  "('j, 'b) platform \<Rightarrow> (string \<times> scalar option) list \<Rightarrow> (string \<times> string) list" where
  "spec_query_pairs p q =
     map (\<lambda>(k, v). (k, toString p (the v))) (filter (\<lambda>(k, v). v \<noteq> None) q)"

text \<open>
  The spec's reading of a tag list: comma-joined when supplied (also when empty), after
  the other parameters; the text that follows the path is empty when nothing is supplied.
\<close>

definition spec_tags_pairs ::
  "('j, 'b) platform \<Rightarrow> ListParams \<Rightarrow> (string \<times> string) list" where
  "spec_tags_pairs p params =
     spec_query_pairs p (rest params)
     @ (case tags params of None \<Rightarrow> [] | Some ts \<Rightarrow> [(''tags'', join '','' ts)])"

definition spec_search :: "(string \<times> string) list \<Rightarrow> string" where
  "spec_search l =
     (if l = [] then []
      else ''?'' @ join ''&'' (map (\<lambda>(k, v). urlencode k @ ''='' @ urlencode v) l))"

text \<open>
  The whole URL, for a path that resolved to \<open>u\<close> and the pairs \<open>l\<close> of the
  mapping: pairs that \<open>u\<close> has of its own come first, and with no pair to add
  \<open>u\<close> keeps the query it has.
\<close>

definition spec_href :: "url \<Rightarrow> (string \<times> string) list \<Rightarrow> string" where
  "spec_href u l =
     origin_path u
     @ (if l = [] then (case url_query u of None \<Rightarrow> [] | Some s \<Rightarrow> ''?'' @ s)
        else spec_search (searchParams u @ l))
     @ (case fragment u of None \<Rightarrow> [] | Some f \<Rightarrow> ''#'' @ f)"

section \<open>The decimal rendering\<close>

lemmas show_nat_simps = show_nat.simps

declare show_nat.simps [simp del]

text \<open>\<open>show_nat\<close> writes decimal digits only, and they read back as the number.\<close>

lemma of_char_digit_char:
  assumes "d < 10"
  shows "of_char (digit_char d) = 48 + d"
proof -
  from assms have "d \<in> {0, 1, 2, 3, 4, 5, 6, 7, 8, 9}"
    by auto
  then show ?thesis
    by (auto simp: digit_char_def)
qed

lemma nat_of_digits_snoc:
  "nat_of_digits (s @ [c]) = 10 * nat_of_digits s + (of_char c - 48)"
  by (simp add: nat_of_digits_def)

lemma show_nat_decimal:
  "nat_of_digits (show_nat n) = n \<and> list_all is_digit (show_nat n)"
proof (induction n rule: show_nat.induct)
  case (1 n)
  show ?case
  proof (cases "n < 10")
    case True
    then show ?thesis
      by (simp add: show_nat_simps [of n] nat_of_digits_def is_digit_def of_char_digit_char)
  next
    case False
    have "n mod 10 < 10"
      by simp
    with False 1 show ?thesis
      by (simp add: show_nat_simps [of n] nat_of_digits_snoc is_digit_def of_char_digit_char)
  qed
qed

section \<open>Construction\<close>

text \<open>
  Claim C7, as amended. Without a token argument and without the environment variable the
  constructor throws the error that asks for a token; it takes no runtime, so no network
  access comes before the throw. With a non-empty token argument, or with no token
  argument and a non-empty environment variable, it returns a client that stores that
  token and the base address. Whenever it returns a client, the stored token is not empty.
\<close>

theorem new_CuenticaAPI_token_sources:
  "new_CuenticaAPI None b None = Inl (Error token_required)
   \<and> (t \<noteq> [] \<longrightarrow>
        new_CuenticaAPI (Some t) b env
        = Inr \<lparr>token = t, baseUrl = (case b of None \<Rightarrow> default_baseUrl | Some u \<Rightarrow> u)\<rparr>)
   \<and> (t \<noteq> [] \<longrightarrow>
        new_CuenticaAPI None b (Some t)
        = Inr \<lparr>token = t, baseUrl = (case b of None \<Rightarrow> default_baseUrl | Some u \<Rightarrow> u)\<rparr>)
   \<and> (new_CuenticaAPI tok b env = Inr api \<longrightarrow> token api \<noteq> [])"
  by (auto simp: new_CuenticaAPI_def split: option.splits if_splits)

theorem new_CuenticaAPI_token_sources_witness:
  "new_CuenticaAPI None None None = Inl (Error token_required)
   \<and> new_CuenticaAPI (Some ''custom-token'') None (Some ''test-token'')
     = Inr \<lparr>token = ''custom-token'', baseUrl = ''https://api.cuentica.com''\<rparr>
   \<and> new_CuenticaAPI None None (Some ''test-token'')
     = Inr \<lparr>token = ''test-token'', baseUrl = ''https://api.cuentica.com''\<rparr>
   \<and> token \<lparr>token = ''test-token'', baseUrl = ''https://api.cuentica.com''\<rparr> \<noteq> []"
  using new_CuenticaAPI_token_sources [of None "''custom-token''" "Some ''test-token''"
      None "\<lparr>token = ''test-token'', baseUrl = ''https://api.cuentica.com''\<rparr>"]
    new_CuenticaAPI_token_sources [of None "''test-token''" None
      None "\<lparr>token = ''test-token'', baseUrl = ''https://api.cuentica.com''\<rparr>"]
  by (simp add: default_baseUrl_def)

text \<open>
  Claim C7 as stated fails: the environment provides the token \<open>env-token\<close>, the token
  argument is the empty string, and the constructor throws.
\<close>

theorem new_CuenticaAPI_env_ignored_counterexample:
  "new_CuenticaAPI (Some []) None (Some ''env-token'') = Inl (Error token_required)"
  by (simp add: new_CuenticaAPI_def)

text \<open>
  Claim C10. An empty-string token argument makes the constructor throw whatever the
  environment variable holds; a token argument that is present makes the constructor
  ignore the environment; and the environment's value is taken, and refused when empty,
  when the token argument is absent.
\<close>

theorem new_CuenticaAPI_empty_token:
  "new_CuenticaAPI (Some []) b env = Inl (Error token_required)
   \<and> new_CuenticaAPI (Some t) b env = new_CuenticaAPI (Some t) b None
   \<and> new_CuenticaAPI None b (Some []) = Inl (Error token_required)
   \<and> new_CuenticaAPI None b env = new_CuenticaAPI env b None"
  by (simp add: new_CuenticaAPI_def split: option.splits)

section \<open>Rounding to a double\<close>

lemma round_half_even_of_int: "round_half_even (of_int k) = k"
  by (simp add: round_half_even_def)

lemma powi_nonpos:
  assumes "e \<le> 52"
  shows "(2::rat) powi (e - 52) = inverse (2 ^ nat (52 - e))"
proof -
  have "(2::rat) powi (e - 52) = 2 powi (- (52 - e))"
    by simp
  also have "\<dots> = inverse (2 powi (52 - e))"
    by (rule power_int_minus)
  also have "2 powi (52 - e) = (2::rat) ^ nat (52 - e)"
    using assms by (simp add: power_int_def)
  finally show ?thesis .
qed

text \<open>An integer of magnitude below \<open>2 ^ 53\<close> is a double.\<close>

lemma to_double_of_int:
  assumes "\<bar>m\<bar> < 2 ^ 53"
  shows "to_double (of_int m) = Finite (of_int m)"
proof (cases "m = 0")
  case True
  then show ?thesis
    by (simp add: to_double_def)
next
  case False
  define a where "a = \<bar>m\<bar>"
  define e where "e = bitlen a - 1"
  define k where "k = nat (52 - e)"
  from False have a1: "1 \<le> a"
    by (simp add: a_def)
  have abs: "\<bar>of_int m :: rat\<bar> = of_int a"
    by (simp add: a_def)
  from a1 have "1 \<le> bitlen a"
    by (simp add: bitlen_ge_iff_power)
  then have e0: "0 \<le> e"
    by (simp add: e_def)
  from assms have "a < 2 ^ nat 53"
    by (simp add: a_def)
  then have "bitlen a \<le> 53"
    by (simp add: bitlen_le_iff_power)
  then have e52: "e \<le> 52"
    by (simp add: e_def)
  from a1 have b: "binade (of_int a) = e"
    by (simp add: binade_def e_def)
  from e0 have mx: "max e (- 1022) = e"
    by simp
  have u: "(2::rat) powi (e - 52) = inverse (2 ^ k)"
    unfolding k_def by (rule powi_nonpos [OF e52])
  have q: "(of_int a :: rat) / inverse (2 ^ k) = of_int (a * 2 ^ k)"
    by (simp add: divide_inverse)
  have r: "of_int (round_half_even (of_int a / inverse (2 ^ k))) * inverse (2 ^ k)
           = (of_int a :: rat)"
    unfolding q round_half_even_of_int by simp
  from assms have "(of_int a :: rat) < of_int (2 ^ 53)"
    unfolding a_def by (rule of_int_less_iff [THEN iffD2])
  also have "(of_int (2 ^ 53) :: rat) \<le> 2 powi 1024"
    by simp
  finally have small: "\<not> (2::rat) powi 1024 \<le> of_int a"
    by simp
  have sgn: "(if (of_int m :: rat) < 0 then - of_int a else of_int a) = (of_int m :: rat)"
    by (simp add: a_def)
  from False have nz: "(of_int m :: rat) \<noteq> 0"
    by simp
  show ?thesis
    unfolding to_double_def Let_def abs b mx u r
    by (simp only: nz small sgn if_False)
qed

lemma times_1000_seconds:
  assumes "\<bar>n\<bar> \<le> 8640000000000"
  shows "times_1000 (Finite (of_int n)) = Finite (of_int (n * 1000))"
proof -
  from assms have "\<bar>n * 1000\<bar> < 2 ^ 53"
    by simp
  then have "to_double (of_int (n * 1000)) = Finite (of_int (n * 1000))"
    by (rule to_double_of_int)
  then show ?thesis
    by simp
qed

text \<open>A number of microseconds: the product is a double, beyond the range of dates.\<close>

lemma times_1000_microseconds:
  "times_1000 (Finite 1700000000000000) = Finite 1700000000000000000"
proof -
  have b: "bitlen 1700000000000000000 = 61"
    by (simp add: compute_bitlen)
  have e: "binade 1700000000000000000 = 60"
    by (simp add: binade_def b)
  have r: "round_half_even 6640625000000000 = 6640625000000000"
    by (simp add: round_half_even_def)
  show ?thesis
    by (simp add: to_double_def e r Let_def)
qed

section \<open>The headers of a request\<close>

lemmas new_Headers_simps = new_Headers.simps

declare new_Headers.simps [simp del]

lemma header_names_ok: "header_name_ok ''X-AUTH-TOKEN''" "header_name_ok ''Content-Type''"
  by (simp_all add: header_name_ok_def token_char_def)

lemma content_type_ok:
  "normalize_value ''application/json'' = ''application/json''"
  "header_value_ok ''application/json''"
  by (simp_all add: normalize_value_def http_whitespace_def header_value_ok_def)

text \<open>
  The headers of a request are built exactly when the token, without the whitespace
  around it, is a header value; they are then that token and, for a truthy body, the JSON
  content type.
\<close>

lemma new_Headers_init:
  "new_Headers p (headers_init api opts)
   = (if header_value_ok (normalize_value (token api))
      then Inr ((''X-AUTH-TOKEN'', normalize_value (token api))
                # (if truthy (body opts) then [(''Content-Type'', ''application/json'')]
                   else []))
      else Inl (TypeError (invalid_header_message p (normalize_value (token api)))))"
  by (simp add: headers_init_def new_Headers_simps header_names_ok content_type_ok)

lemma example_token: "token example_api = ''test-token''"
  by (simp add: example_api_def)

lemma example_token_ok:
  "normalize_value ''test-token'' = ''test-token''" "header_value_ok ''test-token''"
  by (simp_all add: normalize_value_def http_whitespace_def header_value_ok_def)

lemma example_new_URL:
  "new_URL (example_platform f) pth (baseUrl example_api)
   = Inr \<lparr>origin_path = ''https://api.cuentica.com'' @ pth, url_query = None,
          searchParams = [], fragment = None\<rparr>"
  by (simp add: example_platform_def example_URL_def example_api_def default_baseUrl_def)

section \<open>Classification of the response\<close>

lemma request_response:
  assumes "request_args p api opts = Inr args" and "fetch p args = Inr r"
  shows "request p api opts = handle_response p r"
  using assms by (simp add: request_def dispatch_def)

lemma example_request_args:
  "request_args (example_platform f) example_api getCompany_options
   = Inr \<lparr>fetch_url = ''https://api.cuentica.com/company'', fetch_method = Some GET,
          fetch_headers = [(''X-AUTH-TOKEN'', ''test-token'')], fetch_body = None\<rparr>"
proof -
  have "truthy (body getCompany_options) = False" "query getCompany_options = None"
    "path getCompany_options = ''/company''" "method getCompany_options = GET"
    by (simp_all add: getCompany_options_def truthy_def)
  then show ?thesis
    by (simp add: request_args_def request_url_def example_new_URL new_Headers_init
        example_token example_token_ok URL_toString_def body_init_def)
qed

lemma show_nat_500: "show_nat 500 = ''500''"
  by (simp add: show_nat_simps digit_char_def)

lemma show_nat_429: "show_nat 429 = ''429''"
  by (simp add: show_nat_simps digit_char_def)

text \<open>
  Claim C2, as amended. When the response is not in the 2xx range and is not 429, the
  pipeline reads its body as text. If the read gives \<open>t\<close>, the pipeline fails with the
  plain error whose message is \<open>HTTP\<close>, a space, the status in decimal, a colon, a
  space, and \<open>t\<close>. If the read fails, the pipeline fails with the failure of the read.
\<close>

theorem request_generic_http_error:
  assumes "request_args p api opts = Inr args"
    and "fetch p args = Inr r"
    and "\<not> ok r"
    and "status r \<noteq> 429"
  shows "request p api opts
         = (case response_text r of
              Inl e \<Rightarrow> Inl e
            | Inr t \<Rightarrow> Inl (Error (''HTTP '' @ show_nat (status r) @ '': '' @ t)))"
  using assms by (simp add: request_def dispatch_def handle_response_def)

theorem request_generic_http_error_witness:
  "request (example_platform (respond (text_response 500 [] ''Internal Server Error'')))
     example_api getCompany_options
   = Inl (Error ''HTTP 500: Internal Server Error'')"
proof -
  let ?r = "text_response 500 [] ''Internal Server Error''"
  have f: "fetch (example_platform (respond ?r))
             \<lparr>fetch_url = ''https://api.cuentica.com/company'', fetch_method = Some GET,
              fetch_headers = [(''X-AUTH-TOKEN'', ''test-token'')], fetch_body = None\<rparr>
           = Inr ?r"
    by (simp add: example_platform_def respond_def)
  have n: "\<not> ok ?r" and s: "status ?r \<noteq> 429"
    by (simp_all add: ok_def text_response_def)
  have "status ?r = 500" and "response_text ?r = Inr ''Internal Server Error''"
    by (simp_all add: text_response_def)
  with request_generic_http_error [OF example_request_args f n s] show ?thesis
    by (simp add: show_nat_500)
qed

text \<open>
  Claim C2 as stated fails: a 500 response whose body cannot be read. The pipeline fails
  with the failure of the read, not with a plain error that carries the status.
\<close>

theorem request_text_rejected_counterexample:
  "request (example_platform (respond (broken_response 500))) example_api getCompany_options
   = Inl (TypeError ''terminated'')"
proof -
  have f: "fetch (example_platform (respond (broken_response 500)))
             \<lparr>fetch_url = ''https://api.cuentica.com/company'', fetch_method = Some GET,
              fetch_headers = [(''X-AUTH-TOKEN'', ''test-token'')], fetch_body = None\<rparr>
           = Inr (broken_response 500)"
    by (simp add: example_platform_def respond_def)
  show ?thesis
    unfolding request_response [OF example_request_args f]
    by (simp add: handle_response_def broken_response_def ok_def)
qed

text \<open>A failure of \<^verbatim>\<open>fetch\<close> itself is the failure of the pipeline.\<close>

lemma request_fetch_failure:
  assumes "request_args p api opts = Inr args"
    and "fetch p args = Inl e"
  shows "request p api opts = Inl e"
  using assms by (simp add: request_def dispatch_def)

text \<open>
  Claim C6. On a response with status 204 the pipeline returns no value, whatever the
  headers of the response are and whatever reading its body as JSON would give.
\<close>

theorem request_no_content:
  assumes "request_args p api opts = Inr args"
    and "fetch p args = Inr r"
    and "status r = 204"
  shows "request p api opts = Inr None"
  using assms by (simp add: request_def dispatch_def handle_response_def ok_def)

theorem request_no_content_witness:
  "request
     (example_platform
        (respond (text_response 204 [(''Content-Type'', ''application/json'')] [])))
     example_api getCompany_options
   = Inr None"
proof -
  let ?r = "text_response 204 [(''Content-Type'', ''application/json'')] []"
  have f: "fetch (example_platform (respond ?r))
             \<lparr>fetch_url = ''https://api.cuentica.com/company'', fetch_method = Some GET,
              fetch_headers = [(''X-AUTH-TOKEN'', ''test-token'')], fetch_body = None\<rparr>
           = Inr ?r"
    by (simp add: example_platform_def respond_def)
  have s: "status ?r = 204"
    by (simp add: text_response_def)
  from request_no_content [OF example_request_args f s] show ?thesis .
qed

text \<open>
  Claim C9. When the response is in the 2xx range and is not 204, and reading its body as
  JSON fails with \<open>e\<close>, the pipeline fails with \<open>e\<close> itself.
\<close>

theorem request_json_failure_propagates:
  assumes "request_args p api opts = Inr args"
    and "fetch p args = Inr r"
    and "ok r"
    and "status r \<noteq> 204"
    and "response_json r = Inl e"
  shows "request p api opts = Inl e"
  using assms by (auto simp: request_def dispatch_def handle_response_def ok_def)

theorem request_json_failure_propagates_witness:
  "request (example_platform (respond (text_response 200 [] ''<html>'')))
     example_api getCompany_options
   = Inl (Error ''Invalid JSON'')"
proof -
  let ?r = "text_response 200 [] ''<html>''"
  have f: "fetch (example_platform (respond ?r))
             \<lparr>fetch_url = ''https://api.cuentica.com/company'', fetch_method = Some GET,
              fetch_headers = [(''X-AUTH-TOKEN'', ''test-token'')], fetch_body = None\<rparr>
           = Inr ?r"
    by (simp add: example_platform_def respond_def)
  have o: "ok ?r" and s: "status ?r \<noteq> 204"
    and j: "response_json ?r = Inl (Error ''Invalid JSON'')"
    by (simp_all add: ok_def text_response_def)
  from request_json_failure_propagates [OF example_request_args f o s j] show ?thesis .
qed

section \<open>The rate-limit branch\<close>

text \<open>
  What the 429 branch does, by the number the header converts to. When 1000 times that
  number, as a double, is within the range of dates, the pipeline fails with the
  rate-limit error whose reset time is that product, cut to whole milliseconds.
\<close>

lemma handle_response_429_finite:
  assumes "status r = 429"
    and "times_1000 (Number p (Headers_get (headers r) ''X-RateLimit-Reset'')) = Finite m"
    and "\<bar>m\<bar> \<le> 8640000000000000"
  shows "handle_response p r
         = Inl (RateLimitError (Date (if 0 \<le> m then \<lfloor>m\<rfloor> else \<lceil>m\<rceil>)))"
  using assms by (simp add: handle_response_def toISOString_def new_RateLimitError_def)

text \<open>For a header that is a whole number of seconds the reset time is that number times 1000.\<close>

lemma handle_response_429_seconds:
  assumes "status r = 429"
    and "Number p (Headers_get (headers r) ''X-RateLimit-Reset'') = Finite (of_int n)"
    and "\<bar>n\<bar> \<le> 8640000000000"
  shows "handle_response p r = Inl (RateLimitError (Date (n * 1000)))"
proof -
  have t: "times_1000 (Number p (Headers_get (headers r) ''X-RateLimit-Reset''))
           = Finite (of_int (n * 1000))"
    unfolding assms(2) by (rule times_1000_seconds [OF assms(3)])
  from assms(3) have "\<bar>n * 1000\<bar> \<le> 8640000000000000"
    by simp
  then have "(of_int \<bar>n * 1000\<bar> :: rat) \<le> of_int 8640000000000000"
    by (rule of_int_le_iff [THEN iffD2])
  then have b: "\<bar>of_int (n * 1000) :: rat\<bar> \<le> 8640000000000000"
    by simp
  from handle_response_429_finite [OF assms(1) t b] show ?thesis
    by (simp only: floor_of_int ceiling_of_int if_cancel)
qed

text \<open>
  For a header with a fraction of a second the product is rounded before it is cut: the
  double nearest to 1700000000.123 times 1000 is 1700000000123, although the exact product
  is below it.
\<close>

lemma times_1000_fraction:
  "times_1000 (Finite (7130316800515899 / 4194304)) = Finite 1700000000123"
proof -
  have q: "(7130316800515899 / 4194304 :: rat) * 1000 = 891289600064487375 / 524288"
    by simp
  have f: "\<lfloor>891289600064487375 / 524288 :: rat\<rfloor> = 1700000000122"
    by (simp add: floor_eq_iff)
  have b: "bitlen 1700000000122 = 41"
    by (simp add: compute_bitlen)
  have e: "binade (891289600064487375 / 524288) = 40"
    by (simp add: binade_def f b)
  have g: "\<lfloor>891289600064487375 / 128 :: rat\<rfloor> = 6963200000503807"
    by (simp add: floor_eq_iff)
  have r: "round_half_even (891289600064487375 / 128) = 6963200000503808"
    by (simp add: round_half_even_def g)
  have "to_double (891289600064487375 / 524288) = Finite 1700000000123"
    by (simp add: to_double_def e r Let_def)
  then show ?thesis
    by (simp only: times_1000.simps q)
qed

text \<open>
  A header that converts to NaN or to an infinity, or to a number beyond the range of
  dates, gives a date with no time, and the pipeline fails with the RangeError that
  rendering the date throws.
\<close>

lemma handle_response_429_invalid:
  assumes "status r = 429"
    and "new_Date (times_1000 (Number p (Headers_get (headers r) ''X-RateLimit-Reset'')))
         = Invalid_Date"
  shows "handle_response p r = Inl (RangeError ''Invalid time value'')"
  using assms by (simp add: handle_response_def toISOString_def)

lemma example_reset_header:
  "Headers_get (headers (text_response 429 [(''X-RateLimit-Reset'', v)] t))
     ''X-RateLimit-Reset''
   = Some v"
  by (simp add: Headers_get_def text_response_def)

lemma example_request_429_invalid:
  assumes "new_Date (times_1000 (example_Number (Some v))) = Invalid_Date"
  shows "request
           (example_platform
              (respond (text_response 429 [(''X-RateLimit-Reset'', v)] ''Too Many Requests'')))
           example_api getCompany_options
         = Inl (RangeError ''Invalid time value'')"
proof -
  let ?r = "text_response 429 [(''X-RateLimit-Reset'', v)] ''Too Many Requests''"
  let ?p = "example_platform (respond ?r)"
  have f: "fetch ?p
             \<lparr>fetch_url = ''https://api.cuentica.com/company'', fetch_method = Some GET,
              fetch_headers = [(''X-AUTH-TOKEN'', ''test-token'')], fetch_body = None\<rparr>
           = Inr ?r"
    by (simp add: example_platform_def respond_def)
  have "Number ?p (Headers_get (headers ?r) ''X-RateLimit-Reset'') = example_Number (Some v)"
    unfolding example_reset_header by (simp add: example_platform_def)
  with assms
  have d: "new_Date (times_1000 (Number ?p (Headers_get (headers ?r) ''X-RateLimit-Reset'')))
           = Invalid_Date"
    by simp
  have s: "status ?r = 429"
    by (simp add: text_response_def)
  show ?thesis
    unfolding request_response [OF example_request_args f]
    by (rule handle_response_429_invalid [OF s d])
qed

text \<open>
  Claim C1 on the code: two 429 responses on which the pipeline fails with a RangeError
  and not with the rate-limit error. In the first the reset header counts microseconds,
  so that 1000 times its number is beyond the range of dates; in the second it is an ISO
  timestamp, which \<^verbatim>\<open>Number\<close> turns into NaN.
\<close>

theorem request_429_unreadable_reset:
  "request
     (example_platform
        (respond (text_response 429 [(''X-RateLimit-Reset'', ''1700000000000000'')]
                    ''Too Many Requests'')))
     example_api getCompany_options
   = Inl (RangeError ''Invalid time value'')
   \<and> request
       (example_platform
          (respond (text_response 429 [(''X-RateLimit-Reset'', ''2024-01-01T00:00:00Z'')]
                      ''Too Many Requests'')))
       example_api getCompany_options
     = Inl (RangeError ''Invalid time value'')"
proof -
  have "example_Number (Some ''1700000000000000'') = Finite 1700000000000000"
    by (simp add: example_Number_def is_digit_def nat_of_digits_def)
  then have "new_Date (times_1000 (example_Number (Some ''1700000000000000'')))
             = new_Date (Finite 1700000000000000000)"
    by (simp only: times_1000_microseconds)
  then have "new_Date (times_1000 (example_Number (Some ''1700000000000000'')))
             = Invalid_Date"
    by simp
  moreover
  have "example_Number (Some ''2024-01-01T00:00:00Z'') = NaN"
    by (simp add: example_Number_def is_digit_def)
  then have "new_Date (times_1000 (example_Number (Some ''2024-01-01T00:00:00Z'')))
             = Invalid_Date"
    by simp
  ultimately show ?thesis
    by (simp add: example_request_429_invalid)
qed

text \<open>The same call with a reset header in seconds fails with the rate-limit error.\<close>

lemma request_429_seconds_example:
  "request
     (example_platform
        (respond (text_response 429 [(''X-RateLimit-Reset'', ''1700000000'')]
                    ''Too Many Requests'')))
     example_api getCompany_options
   = Inl (RateLimitError (Date 1700000000000))"
proof -
  let ?r = "text_response 429 [(''X-RateLimit-Reset'', ''1700000000'')] ''Too Many Requests''"
  let ?p = "example_platform (respond ?r)"
  have f: "fetch ?p
             \<lparr>fetch_url = ''https://api.cuentica.com/company'', fetch_method = Some GET,
              fetch_headers = [(''X-AUTH-TOKEN'', ''test-token'')], fetch_body = None\<rparr>
           = Inr ?r"
    by (simp add: example_platform_def respond_def)
  have n: "example_Number (Some ''1700000000'') = Finite (of_int 1700000000)"
    by (simp add: example_Number_def is_digit_def nat_of_digits_def)
  have h: "Number ?p (Headers_get (headers ?r) ''X-RateLimit-Reset'')
           = Finite (of_int 1700000000)"
    unfolding example_reset_header by (simp add: example_platform_def n)
  have s: "status ?r = 429"
    by (simp add: text_response_def)
  have b: "\<bar>1700000000 :: int\<bar> \<le> 8640000000000"
    by simp
  from handle_response_429_seconds [OF s h b] show ?thesis
    unfolding request_response [OF example_request_args f] by simp
qed

section \<open>The arguments handed to fetch\<close>

lemma append_query_Nil: "append_query p u [] = u"
  by (simp add: append_query_def)

lemma append_query_absent: "append_query p u ((k, None) # q) = append_query p u q"
  by (simp add: append_query_def)

lemma append_query_present:
  "append_query p u ((k, Some v) # q)
   = append_query p (searchParams_append u k (toString p v)) q"
  by (simp add: append_query_def)

lemma spec_query_pairs_Nil: "spec_query_pairs p [] = []"
  by (simp add: spec_query_pairs_def)

lemma spec_query_pairs_absent: "spec_query_pairs p ((k, None) # q) = spec_query_pairs p q"
  by (simp add: spec_query_pairs_def)

lemma spec_query_pairs_present:
  "spec_query_pairs p ((k, Some v) # q) = (k, toString p v) # spec_query_pairs p q"
  by (simp add: spec_query_pairs_def)

lemma spec_query_pairs_append:
  "spec_query_pairs p (q @ q') = spec_query_pairs p q @ spec_query_pairs p q'"
  by (simp add: spec_query_pairs_def)

text \<open>
  The loop over the entries leaves the URL with the pairs of the present entries after the
  pairs it had, and with the serialization of the whole list as its query once a pair has
  been added.
\<close>

lemma append_query_url:
  "append_query p u q
   = u\<lparr>searchParams := searchParams u @ spec_query_pairs p q,
       url_query := (if spec_query_pairs p q = [] then url_query u
                     else Some (urlencoded_serialize (searchParams u @ spec_query_pairs p q)))\<rparr>"
proof (induction q arbitrary: u)
  case Nil
  then show ?case
    by (simp add: append_query_Nil spec_query_pairs_Nil)
next
  case (Cons e q)
  obtain k v where e: "e = (k, v)"
    by (cases e)
  show ?case
  proof (cases v)
    case None
    with e Cons show ?thesis
      by (simp add: append_query_absent spec_query_pairs_absent)
  next
    case (Some x)
    with e Cons [of "searchParams_append u k (toString p x)"] show ?thesis
      by (simp add: append_query_present spec_query_pairs_present searchParams_append_def
          Let_def)
  qed
qed

lemma spec_search_serialize:
  "l \<noteq> [] \<Longrightarrow> spec_search l = ''?'' @ urlencoded_serialize l"
  by (simp add: spec_search_def urlencoded_serialize_def)

lemma URL_toString_append_query:
  "URL_toString (append_query p u q) = spec_href u (spec_query_pairs p q)"
proof (cases "spec_query_pairs p q = []")
  case True
  then show ?thesis
    by (simp add: append_query_url URL_toString_def spec_href_def)
next
  case False
  then have "searchParams u @ spec_query_pairs p q \<noteq> []"
    by simp
  with False show ?thesis
    by (simp add: append_query_url URL_toString_def spec_href_def spec_search_serialize)
qed

lemma request_url_query:
  assumes "new_URL p (path opts) (baseUrl api) = Inr u"
    and "query opts = Some q"
  shows "request_url p api opts = Inr (append_query p u q)"
  using assms by (simp add: request_url_def)

text \<open>
  The pipeline, once its URL is assembled: it fails with the TypeError of the headers, or
  it calls \<^verbatim>\<open>fetch\<close> on that URL, the verb, the headers and the body.
\<close>

lemma request_by_parts:
  assumes "request_url p api opts = Inr u"
  shows "request p api opts
         = (case new_Headers p (headers_init api opts) of
              Inl e \<Rightarrow> Inl e
            | Inr hs \<Rightarrow>
                dispatch p \<lparr>fetch_url = URL_toString u, fetch_method = Some (method opts),
                            fetch_headers = hs, fetch_body = body_init p opts\<rparr>)"
  using assms by (simp add: request_def request_args_def split: sum.splits)

lemma spec_href_plain:
  assumes "url_query u = None" and "searchParams u = []"
  shows "spec_href u l
         = origin_path u @ spec_search l @ (case fragment u of None \<Rightarrow> [] | Some f \<Rightarrow> ''#'' @ f)"
  using assms by (simp add: spec_href_def spec_search_def)

lemma dispatch_echo:
  "dispatch (example_platform echo_server) args = Inr (Some (echo args))"
  by (simp add: dispatch_def example_platform_def echo_server_def handle_response_def ok_def)

lemmas urlencode_defs =
  urlencode_def urlencoded_byte_def urlencoded_keep_def digit_char_def spec_search_def

text \<open>
  Claim C3. The URL that the pipeline assembles, and hands to \<^verbatim>\<open>fetch\<close> unless
  the headers throw, is the URL the path resolved to with the pairs \<open>key=value\<close> of
  exactly the entries of the query mapping that are not absent, in the order of the
  mapping, joined by \<open>&\<close> after a question mark; with no such entry nothing is
  added. An entry whose value is the empty string is such a pair, with nothing after the
  equals sign; an absent entry adds nothing.
\<close>

theorem request_query_string:
  assumes "new_URL p (path opts) (baseUrl api) = Inr u"
    and "query opts = Some q"
  shows "(\<exists>u'. request_url p api opts = Inr u'
            \<and> URL_toString u' = spec_href u (spec_query_pairs p q))
         \<and> request p api opts
           = (case new_Headers p (headers_init api opts) of
                Inl e \<Rightarrow> Inl e
              | Inr hs \<Rightarrow>
                  dispatch p \<lparr>fetch_url = spec_href u (spec_query_pairs p q),
                              fetch_method = Some (method opts),
                              fetch_headers = hs, fetch_body = body_init p opts\<rparr>)
         \<and> (url_query u = None \<and> searchParams u = []
              \<longrightarrow> spec_href u (spec_query_pairs p q)
                  = origin_path u @ spec_search (spec_query_pairs p q)
                    @ (case fragment u of None \<Rightarrow> [] | Some f \<Rightarrow> ''#'' @ f))
         \<and> spec_query_pairs p (q1 @ (k, None) # q2)
           = spec_query_pairs p q1 @ spec_query_pairs p q2
         \<and> spec_query_pairs p (q1 @ (k, Some (Str [])) # q2)
           = spec_query_pairs p q1 @ (k, []) # spec_query_pairs p q2
         \<and> spec_search [(k, [])] = ''?'' @ urlencode k @ ''=''"
proof -
  have u: "request_url p api opts = Inr (append_query p u q)"
    by (rule request_url_query [OF assms])
  have "\<exists>u'. request_url p api opts = Inr u'
          \<and> URL_toString u' = spec_href u (spec_query_pairs p q)"
    using u by (simp add: URL_toString_append_query)
  moreover have "request p api opts
                 = (case new_Headers p (headers_init api opts) of
                      Inl e \<Rightarrow> Inl e
                    | Inr hs \<Rightarrow>
                        dispatch p \<lparr>fetch_url = spec_href u (spec_query_pairs p q),
                                    fetch_method = Some (method opts),
                                    fetch_headers = hs, fetch_body = body_init p opts\<rparr>)"
    unfolding request_by_parts [OF u] URL_toString_append_query ..
  moreover have "url_query u = None \<and> searchParams u = []
                 \<longrightarrow> spec_href u (spec_query_pairs p q)
                     = origin_path u @ spec_search (spec_query_pairs p q)
                       @ (case fragment u of None \<Rightarrow> [] | Some f \<Rightarrow> ''#'' @ f)"
    by (simp add: spec_href_plain)
  moreover have "spec_query_pairs p (q1 @ (k, None) # q2)
                 = spec_query_pairs p q1 @ spec_query_pairs p q2"
    by (simp add: spec_query_pairs_append spec_query_pairs_absent)
  moreover have "spec_query_pairs p (q1 @ (k, Some (Str [])) # q2)
                 = spec_query_pairs p q1 @ (k, []) # spec_query_pairs p q2"
    by (simp add: spec_query_pairs_append spec_query_pairs_present)
  moreover have "spec_search [(k, [])] = ''?'' @ urlencode k @ ''=''"
    by (simp add: spec_search_def urlencode_def)
  ultimately show ?thesis
    by blast
qed

theorem request_query_string_witness:
  "request (example_platform echo_server) example_api
     \<lparr>method = GET, path = ''/invoice'', body = None,
      query = Some [(''page'', Some (Num (Finite 2))), (''q'', None),
                    (''serie'', Some (Str [])), (''issued'', Some (Bool True))]\<rparr>
   = Inr (Some (JObj
       [(''url'', JStr ''https://api.cuentica.com/invoice?page=2&serie=&issued=true''),
        (''method'', JStr ''GET''),
        (''headers'', JObj [(''X-AUTH-TOKEN'', JStr ''test-token'')]),
        (''body'', JNull)]))
   \<and> spec_query_pairs (example_platform echo_server) [(''serie'', None)] = []
   \<and> spec_query_pairs (example_platform echo_server) [(''serie'', Some (Str []))]
     = [(''serie'', [])]
   \<and> spec_search [(''serie'', [])] = ''?serie=''"
proof -
  let ?p = "example_platform echo_server"
  let ?q = "[(''page'', Some (Num (Finite 2))), (''q'', None),
             (''serie'', Some (Str [])), (''issued'', Some (Bool True))]"
  let ?opts = "\<lparr>method = GET, path = ''/invoice'', body = None, query = Some ?q\<rparr>"
  let ?u = "\<lparr>origin_path = ''https://api.cuentica.com/invoice'', url_query = None,
             searchParams = [], fragment = None\<rparr>"
  have a: "new_URL ?p (path ?opts) (baseUrl example_api) = Inr ?u"
    by (simp add: example_new_URL)
  have d: "query ?opts = Some ?q"
    by simp
  have n: "Number_toString ?p (Finite 2) = ''2''"
    by (simp add: example_platform_def example_Number_toString_def show_nat_simps
        digit_char_def)
  have e: "spec_href ?u (spec_query_pairs ?p ?q)
           = ''https://api.cuentica.com/invoice?page=2&serie=&issued=true''"
    by (simp add: spec_href_def spec_query_pairs_def n urlencode_defs)
  have h: "new_Headers ?p (headers_init example_api ?opts)
           = Inr [(''X-AUTH-TOKEN'', ''test-token'')]"
    by (simp add: new_Headers_init example_token example_token_ok truthy_def)
  have b: "body_init ?p ?opts = None"
    by (simp add: body_init_def truthy_def)
  have k: "urlencode ''serie'' = ''serie''"
    by (simp add: urlencode_defs)
  note c3 = request_query_string [OF a d, of "[]" "''serie''" "[]"]
  from c3 have "request ?p example_api ?opts
                = (case new_Headers ?p (headers_init example_api ?opts) of
                     Inl e \<Rightarrow> Inl e
                   | Inr hs \<Rightarrow>
                       dispatch ?p \<lparr>fetch_url = spec_href ?u (spec_query_pairs ?p ?q),
                                    fetch_method = Some (method ?opts),
                                    fetch_headers = hs, fetch_body = body_init ?p ?opts\<rparr>)"
    by blast
  then have "request ?p example_api ?opts
             = Inr (Some (JObj
                 [(''url'', JStr ''https://api.cuentica.com/invoice?page=2&serie=&issued=true''),
                  (''method'', JStr ''GET''),
                  (''headers'', JObj [(''X-AUTH-TOKEN'', JStr ''test-token'')]),
                  (''body'', JNull)]))"
    unfolding h e b by (simp add: dispatch_echo echo_def method_name_def)
  moreover from c3 have "spec_query_pairs ?p [(''serie'', None)] = []"
    by (simp add: spec_query_pairs_Nil)
  moreover from c3 have "spec_query_pairs ?p [(''serie'', Some (Str []))] = [(''serie'', [])]"
    by (simp add: spec_query_pairs_Nil)
  moreover from c3 have "spec_search [(''serie'', [])] = ''?serie=''"
    by (simp add: k)
  ultimately show ?thesis
    by blast
qed

text \<open>
  Claim C4. \<^verbatim>\<open>getInvoices\<close> and \<^verbatim>\<open>getExpenses\<close> fail with the TypeError of
  the headers, or call \<^verbatim>\<open>fetch\<close> with the verb GET, no body, and the URL that
  has the pairs of the other parameters that are present and then, when a tag list is
  supplied, the pair of \<open>tags\<close> and the list joined by commas. With no other
  parameter, and a path that resolves to a plain URL, the tags \<open>a\<close>, \<open>b\<close> give
  \<open>?tags=a%2Cb\<close>, the empty list gives \<open>?tags=\<close>, and no list gives no query.
\<close>

theorem tags_query_string:
  "(new_URL p ''/invoice'' (baseUrl api) = Inr u
    \<longrightarrow> getInvoices p api params
        = (case new_Headers p [(''X-AUTH-TOKEN'', token api)] of
             Inl e \<Rightarrow> Inl e
           | Inr hs \<Rightarrow>
               dispatch p \<lparr>fetch_url = spec_href u (spec_tags_pairs p params),
                           fetch_method = Some GET, fetch_headers = hs,
                           fetch_body = None\<rparr>))
   \<and> (new_URL p ''/expense'' (baseUrl api) = Inr u
        \<longrightarrow> getExpenses p api params
            = (case new_Headers p [(''X-AUTH-TOKEN'', token api)] of
                 Inl e \<Rightarrow> Inl e
               | Inr hs \<Rightarrow>
                   dispatch p \<lparr>fetch_url = spec_href u (spec_tags_pairs p params),
                               fetch_method = Some GET, fetch_headers = hs,
                               fetch_body = None\<rparr>))
   \<and> (url_query u = None \<and> searchParams u = [] \<and> fragment u = None \<and> rest params = []
        \<longrightarrow> (tags params = Some [''a'', ''b'']
                \<longrightarrow> spec_href u (spec_tags_pairs p params) = origin_path u @ ''?tags=a%2Cb'')
            \<and> (tags params = Some []
                \<longrightarrow> spec_href u (spec_tags_pairs p params) = origin_path u @ ''?tags='')
            \<and> (tags params = None
                \<longrightarrow> spec_href u (spec_tags_pairs p params) = origin_path u))"
proof -
  have t: "spec_query_pairs p (tags_query params) = spec_tags_pairs p params"
    by (cases "tags params")
      (simp_all add: tags_query_def spec_tags_pairs_def spec_query_pairs_append
        spec_query_pairs_absent spec_query_pairs_present spec_query_pairs_Nil)
  have parts:
    "request p api opts
     = (case new_Headers p [(''X-AUTH-TOKEN'', token api)] of
          Inl e \<Rightarrow> Inl e
        | Inr hs \<Rightarrow>
            dispatch p \<lparr>fetch_url = spec_href u (spec_tags_pairs p params),
                        fetch_method = Some GET, fetch_headers = hs, fetch_body = None\<rparr>)"
    if "new_URL p (path opts) (baseUrl api) = Inr u"
      and "query opts = Some (tags_query params)"
      and "body opts = None" and "method opts = GET" for opts
  proof -
    have "request_url p api opts = Inr (append_query p u (tags_query params))"
      by (rule request_url_query [OF that(1,2)])
    from request_by_parts [OF this] that(3,4) show ?thesis
      by (simp add: URL_toString_append_query t headers_init_def body_init_def truthy_def
          split: sum.splits)
  qed
  have "new_URL p ''/invoice'' (baseUrl api) = Inr u
        \<longrightarrow> getInvoices p api params
            = (case new_Headers p [(''X-AUTH-TOKEN'', token api)] of
                 Inl e \<Rightarrow> Inl e
               | Inr hs \<Rightarrow>
                   dispatch p \<lparr>fetch_url = spec_href u (spec_tags_pairs p params),
                               fetch_method = Some GET, fetch_headers = hs,
                               fetch_body = None\<rparr>)"
    unfolding getInvoices_def
    by (intro impI parts) (simp_all add: getInvoices_options_def)
  moreover
  have "new_URL p ''/expense'' (baseUrl api) = Inr u
        \<longrightarrow> getExpenses p api params
            = (case new_Headers p [(''X-AUTH-TOKEN'', token api)] of
                 Inl e \<Rightarrow> Inl e
               | Inr hs \<Rightarrow>
                   dispatch p \<lparr>fetch_url = spec_href u (spec_tags_pairs p params),
                               fetch_method = Some GET, fetch_headers = hs,
                               fetch_body = None\<rparr>)"
    unfolding getExpenses_def
    by (intro impI parts) (simp_all add: getExpenses_options_def)
  moreover
  have "url_query u = None \<and> searchParams u = [] \<and> fragment u = None \<and> rest params = []
        \<longrightarrow> (tags params = Some [''a'', ''b'']
                \<longrightarrow> spec_href u (spec_tags_pairs p params) = origin_path u @ ''?tags=a%2Cb'')
            \<and> (tags params = Some []
                \<longrightarrow> spec_href u (spec_tags_pairs p params) = origin_path u @ ''?tags='')
            \<and> (tags params = None
                \<longrightarrow> spec_href u (spec_tags_pairs p params) = origin_path u)"
    by (simp add: spec_href_def spec_tags_pairs_def spec_query_pairs_Nil urlencode_defs)
  ultimately show ?thesis
    by blast
qed

lemma example_headers_text:
  "new_Headers (example_platform f) [(''X-AUTH-TOKEN'', ''test-token'')]
   = Inr [(''X-AUTH-TOKEN'', ''test-token'')]"
  by (simp add: new_Headers_simps header_names_ok example_token_ok)

lemma example_headers:
  "new_Headers (example_platform f) [(''X-AUTH-TOKEN'', token example_api)]
   = Inr [(''X-AUTH-TOKEN'', ''test-token'')]"
  unfolding example_token by (rule example_headers_text)

lemma example_invoice_URL:
  "new_URL (example_platform f) ''/invoice'' (baseUrl example_api)
   = Inr \<lparr>origin_path = ''https://api.cuentica.com/invoice'', url_query = None,
          searchParams = [], fragment = None\<rparr>"
  "new_URL (example_platform f) ''/expense'' (baseUrl example_api)
   = Inr \<lparr>origin_path = ''https://api.cuentica.com/expense'', url_query = None,
          searchParams = [], fragment = None\<rparr>"
  by (simp_all add: example_new_URL)

theorem tags_query_string_witness:
  "getInvoices (example_platform echo_server) example_api
     \<lparr>tags = Some [''a'', ''b''], rest = []\<rparr>
   = Inr (Some (JObj [(''url'', JStr ''https://api.cuentica.com/invoice?tags=a%2Cb''),
                      (''method'', JStr ''GET''),
                      (''headers'', JObj [(''X-AUTH-TOKEN'', JStr ''test-token'')]),
                      (''body'', JNull)]))
   \<and> getInvoices (example_platform echo_server) example_api \<lparr>tags = Some [], rest = []\<rparr>
     = Inr (Some (JObj [(''url'', JStr ''https://api.cuentica.com/invoice?tags=''),
                        (''method'', JStr ''GET''),
                        (''headers'', JObj [(''X-AUTH-TOKEN'', JStr ''test-token'')]),
                        (''body'', JNull)]))
   \<and> getExpenses (example_platform echo_server) example_api \<lparr>tags = None, rest = []\<rparr>
     = Inr (Some (JObj [(''url'', JStr ''https://api.cuentica.com/expense''),
                        (''method'', JStr ''GET''),
                        (''headers'', JObj [(''X-AUTH-TOKEN'', JStr ''test-token'')]),
                        (''body'', JNull)]))"
proof -
  let ?p = "example_platform echo_server"
  let ?i = "\<lparr>origin_path = ''https://api.cuentica.com/invoice'', url_query = None,
             searchParams = [], fragment = None\<rparr>"
  let ?e = "\<lparr>origin_path = ''https://api.cuentica.com/expense'', url_query = None,
             searchParams = [], fragment = None\<rparr>"
  let ?ab = "\<lparr>tags = Some [''a'', ''b''], rest = []\<rparr>"
  let ?none = "\<lparr>tags = Some [], rest = []\<rparr>"
  let ?absent = "\<lparr>tags = None, rest = []\<rparr>"
  note ab = tags_query_string [of ?p example_api ?i ?ab]
  note none = tags_query_string [of ?p example_api ?i ?none]
  note absent = tags_query_string [of ?p example_api ?e ?absent]
  from ab have "spec_href ?i (spec_tags_pairs ?p ?ab) = ''https://api.cuentica.com/invoice?tags=a%2Cb''"
    by simp
  with ab have "getInvoices ?p example_api ?ab
                = Inr (Some (JObj [(''url'', JStr ''https://api.cuentica.com/invoice?tags=a%2Cb''),
                                   (''method'', JStr ''GET''),
                                   (''headers'', JObj [(''X-AUTH-TOKEN'', JStr ''test-token'')]),
                                   (''body'', JNull)]))"
    by (simp add: example_invoice_URL example_headers dispatch_echo echo_def method_name_def)
  moreover
  from none have "spec_href ?i (spec_tags_pairs ?p ?none) = ''https://api.cuentica.com/invoice?tags=''"
    by simp
  with none have "getInvoices ?p example_api ?none
                  = Inr (Some (JObj [(''url'', JStr ''https://api.cuentica.com/invoice?tags=''),
                                     (''method'', JStr ''GET''),
                                     (''headers'', JObj [(''X-AUTH-TOKEN'', JStr ''test-token'')]),
                                     (''body'', JNull)]))"
    by (simp add: example_invoice_URL example_headers dispatch_echo echo_def method_name_def)
  moreover
  from absent have "spec_href ?e (spec_tags_pairs ?p ?absent) = ''https://api.cuentica.com/expense''"
    by simp
  with absent have "getExpenses ?p example_api ?absent
                    = Inr (Some (JObj [(''url'', JStr ''https://api.cuentica.com/expense''),
                                       (''method'', JStr ''GET''),
                                       (''headers'', JObj [(''X-AUTH-TOKEN'', JStr ''test-token'')]),
                                       (''body'', JNull)]))"
    by (simp add: example_invoice_URL example_headers dispatch_echo echo_def method_name_def)
  ultimately show ?thesis
    by blast
qed

text \<open>The call of the tests of the repository, with a date filter before the tags.\<close>

lemma getInvoices_filters_example:
  "getInvoices (example_platform echo_server) example_api
     \<lparr>tags = Some [''tag1'', ''tag2''],
      rest = [(''initial_date'', Some (Str ''2024-01-01'')),
              (''end_date'', Some (Str ''2024-12-31''))]\<rparr>
   = Inr (Some (JObj
       [(''url'', JStr (''https://api.cuentica.com/invoice''
                        @ ''?initial_date=2024-01-01&end_date=2024-12-31&tags=tag1%2Ctag2'')),
        (''method'', JStr ''GET''),
        (''headers'', JObj [(''X-AUTH-TOKEN'', JStr ''test-token'')]),
        (''body'', JNull)]))"
  by (simp add: getInvoices_def getInvoices_options_def tags_query_def request_by_parts
      request_url_def example_new_URL URL_toString_append_query headers_init_def body_init_def
      truthy_def example_headers dispatch_echo echo_def method_name_def spec_href_def
      spec_query_pairs_def urlencode_defs)




text \<open>
  A token with a line feed inside is accepted by the constructor and refused by
  \<^verbatim>\<open>new Headers\<close>: the pipeline fails before \<^verbatim>\<open>fetch\<close> is called.
\<close>

lemma request_invalid_token_example:
  "new_CuenticaAPI (Some (''bad'' @ [CHR 0x0A] @ ''token'')) None None
   = Inr \<lparr>token = ''bad'' @ [CHR 0x0A] @ ''token'', baseUrl = default_baseUrl\<rparr>
   \<and> request (example_platform echo_server)
       \<lparr>token = ''bad'' @ [CHR 0x0A] @ ''token'', baseUrl = default_baseUrl\<rparr>
       getCompany_options
     = Inl (TypeError (example_header_message (''bad'' @ [CHR 0x0A] @ ''token'')))"
proof -
  let ?api = "\<lparr>token = ''bad'' @ [CHR 0x0A] @ ''token'', baseUrl = default_baseUrl\<rparr>"
  have u: "request_url (example_platform echo_server) ?api getCompany_options
           = Inr \<lparr>origin_path = ''https://api.cuentica.com/company'', url_query = None,
                  searchParams = [], fragment = None\<rparr>"
    by (simp add: request_url_def example_platform_def example_URL_def default_baseUrl_def
        getCompany_options_def)
  have n: "normalize_value (''bad'' @ [CHR 0x0A] @ ''token'') = ''bad'' @ [CHR 0x0A] @ ''token''"
    and v: "\<not> header_value_ok (''bad'' @ [CHR 0x0A] @ ''token'')"
    by (simp_all add: normalize_value_def http_whitespace_def header_value_ok_def)
  have "request (example_platform echo_server) ?api getCompany_options
        = Inl (TypeError (example_header_message (''bad'' @ [CHR 0x0A] @ ''token'')))"
    unfolding request_by_parts [OF u] new_Headers_init
    by (simp only: CuenticaAPI.simps n v if_False sum.case)
       (simp add: example_platform_def)
  then show ?thesis
    by (simp add: new_CuenticaAPI_def)
qed

section \<open>The binary document fetch\<close>

text \<open>
  Claim C8, as amended. \<^verbatim>\<open>getInvoicePdf\<close> reads the body of every response outside
  the 2xx range, 429 included, as text: if the read gives \<open>t\<close> it fails with the
  plain error whose message is \<open>HTTP\<close>, the status and \<open>t\<close>, and if the read
  fails it fails with the failure of the read. On every response inside the range, 204
  included, it returns what reading the body as a blob gives. The result is stated for
  every response, whatever reading its body as JSON would give.
\<close>

theorem getInvoicePdf_outcome:
  assumes "fetch p (getInvoicePdf_args p api invoice_id) = Inr r"
  shows "(\<not> ok r
          \<longrightarrow> getInvoicePdf p api invoice_id
              = (case response_text r of
                   Inl e \<Rightarrow> Inl e
                 | Inr t \<Rightarrow> Inl (Error (''HTTP '' @ show_nat (status r) @ '': '' @ t))))
         \<and> (status r = 429
              \<longrightarrow> getInvoicePdf p api invoice_id
                  = (case response_text r of
                       Inl e \<Rightarrow> Inl e
                     | Inr t \<Rightarrow> Inl (Error (''HTTP 429: '' @ t))))
         \<and> (ok r \<longrightarrow> getInvoicePdf p api invoice_id = response_blob r)
         \<and> (status r = 204 \<longrightarrow> getInvoicePdf p api invoice_id = response_blob r)"
proof -
  have "\<not> ok r
        \<longrightarrow> getInvoicePdf p api invoice_id
            = (case response_text r of
                 Inl e \<Rightarrow> Inl e
               | Inr t \<Rightarrow> Inl (Error (''HTTP '' @ show_nat (status r) @ '': '' @ t)))"
    using assms by (simp add: getInvoicePdf_def)
  moreover have "status r = 429
                 \<longrightarrow> getInvoicePdf p api invoice_id
                     = (case response_text r of
                          Inl e \<Rightarrow> Inl e
                        | Inr t \<Rightarrow> Inl (Error (''HTTP 429: '' @ t)))"
    using assms
    by (cases "response_text r") (simp_all add: getInvoicePdf_def ok_def show_nat_429)
  moreover have "ok r \<longrightarrow> getInvoicePdf p api invoice_id = response_blob r"
    using assms by (simp add: getInvoicePdf_def)
  moreover have "status r = 204 \<longrightarrow> getInvoicePdf p api invoice_id = response_blob r"
    using assms by (simp add: getInvoicePdf_def ok_def)
  ultimately show ?thesis
    by blast
qed

theorem getInvoicePdf_outcome_witness:
  "getInvoicePdf (example_platform (respond (text_response 500 [] ''Error downloading PDF'')))
     example_api (Finite 1)
   = Inl (Error ''HTTP 500: Error downloading PDF'')
   \<and> getInvoicePdf
       (example_platform
          (respond (text_response 429 [(''X-RateLimit-Reset'', ''1700000000'')] ''slow down'')))
       example_api (Finite 1)
     = Inl (Error ''HTTP 429: slow down'')
   \<and> getInvoicePdf (example_platform (respond (text_response 200 [] ''fake-pdf'')))
       example_api (Finite 1)
     = Inr ''fake-pdf''
   \<and> getInvoicePdf (example_platform (respond (text_response 204 [] [])))
       example_api (Finite 1)
     = Inr []
   \<and> fetch_url (getInvoicePdf_args
                  (example_platform (respond (text_response 200 [] ''fake-pdf'')))
                  example_api (Finite 1))
     = ''https://api.cuentica.com/invoice/1/pdf''"
proof -
  have f: "fetch (example_platform (respond r))
             (getInvoicePdf_args (example_platform (respond r)) example_api (Finite 1))
           = Inr r" for r :: "(js_value, string) response"
    by (simp add: example_platform_def respond_def)
  have "getInvoicePdf (example_platform (respond (text_response 500 [] ''Error downloading PDF'')))
          example_api (Finite 1)
        = Inl (Error ''HTTP 500: Error downloading PDF'')"
    using getInvoicePdf_outcome [OF f, of "text_response 500 [] ''Error downloading PDF''"]
    by (simp add: text_response_def ok_def show_nat_500)
  moreover have "getInvoicePdf
                   (example_platform
                      (respond (text_response 429 [(''X-RateLimit-Reset'', ''1700000000'')]
                                  ''slow down'')))
                   example_api (Finite 1)
                 = Inl (Error ''HTTP 429: slow down'')"
    using getInvoicePdf_outcome [OF f,
        of "text_response 429 [(''X-RateLimit-Reset'', ''1700000000'')] ''slow down''"]
    by (simp add: text_response_def ok_def show_nat_429)
  moreover have "getInvoicePdf (example_platform (respond (text_response 200 [] ''fake-pdf'')))
                   example_api (Finite 1)
                 = Inr ''fake-pdf''"
    using getInvoicePdf_outcome [OF f, of "text_response 200 [] ''fake-pdf''"]
    by (simp add: text_response_def ok_def)
  moreover have "getInvoicePdf (example_platform (respond (text_response 204 [] [])))
                   example_api (Finite 1)
                 = Inr []"
    using getInvoicePdf_outcome [OF f, of "text_response 204 [] []"]
    by (simp add: text_response_def ok_def)
  moreover have "fetch_url (getInvoicePdf_args
                   (example_platform (respond (text_response 200 [] ''fake-pdf'')))
                   example_api (Finite 1))
                 = ''https://api.cuentica.com/invoice/1/pdf''"
    by (simp add: getInvoicePdf_args_def example_platform_def example_api_def
        default_baseUrl_def example_Number_toString_def show_nat_simps digit_char_def)
  ultimately show ?thesis
    by blast
qed

text \<open>
  Claim C8 as stated fails: a 500 response whose body cannot be read. The operation fails
  with the failure of the read, not with a plain error that carries the status.
\<close>

theorem getInvoicePdf_text_rejected_counterexample:
  "getInvoicePdf (example_platform (respond (broken_response 500))) example_api (Finite 1)
   = Inl (TypeError ''terminated'')"
  by (simp add: getInvoicePdf_def example_platform_def respond_def broken_response_def ok_def)

end
